theory Spec2Isabelle
  imports Main "HOL-Library.AList" "HOL-Library.Sublist"
begin

section \<open>Review endpoints of api/v1/views/places\_reviews.py\<close>

text \<open>
  The module maps five routes to calls on a storage object and to JSON responses.
  The handlers are embedded as functions from the request (path parameter, body) and
  the storage state to a result and the storage state after the request.
  An \<open>abort\<close> and an exception that nothing catches are results of their own.
\<close>

subsection \<open>JSON values and Python dictionaries\<close>

text \<open>
  The Python values that a decoded JSON document consists of. \<open>JNull\<close> is Python's
  \<open>None\<close>, \<open>JObj\<close> a \<open>dict\<close> with string keys, \<open>JArr\<close> a \<open>list\<close>.
  Numbers are integers here; no handler computes with them.
\<close>

datatype json =
    JNull
  | JBool bool
  | JNum int
  | JStr string
  | JArr "json list"
  | JObj "(string \<times> json) list"

text \<open>
  A dictionary is an association list read through \<open>map_of\<close>: the first binding of a
  key is the live one. \<open>d[k] = v\<close> is \<open>AList.update\<close> (in place for a known key, at the
  end for a new one), and the items a loop sees are the live bindings, each key once.
\<close>

definition dict_items :: "('k \<times> 'v) list \<Rightarrow> ('k \<times> 'v) list" where
  "dict_items d = AList.clearjunk d"

datatype py_exception = KeyError | TypeError | AttributeError

text \<open>\<open>obj[key]\<close> for a string key: only a dictionary can be indexed by a string.\<close>

fun py_getitem :: "json \<Rightarrow> string \<Rightarrow> py_exception + json" where
  "py_getitem (JObj d) key = (case map_of d key of None \<Rightarrow> Inl KeyError | Some v \<Rightarrow> Inr v)"
| "py_getitem _ key = Inl TypeError"

text \<open>\<open>obj[key] = val\<close> for a string key.\<close>

fun py_setitem :: "json \<Rightarrow> string \<Rightarrow> json \<Rightarrow> py_exception + json" where
  "py_setitem (JObj d) key val = Inr (JObj (AList.update key val d))"
| "py_setitem _ key val = Inl TypeError"

text \<open>
  \<open>key in obj\<close> for a string key: a key of a dictionary, an element of a list, a
  substring of a string; the other values are not iterable.
\<close>

fun py_contains :: "string \<Rightarrow> json \<Rightarrow> py_exception + bool" where
  "py_contains key (JObj d) = Inr (map_of d key \<noteq> None)"
| "py_contains key (JArr xs) = Inr (JStr key \<in> set xs)"
| "py_contains key (JStr s) = Inr (sublist key s)"
| "py_contains key _ = Inl TypeError"

text \<open>\<open>obj.items()\<close>: only a dictionary has the method.\<close>

fun py_items :: "json \<Rightarrow> py_exception + (string \<times> json) list" where
  "py_items (JObj d) = Inr (dict_items d)"
| "py_items _ = Inl AttributeError"

subsection \<open>Requests, responses and failures\<close>

text \<open>
  The body of a request: \<open>None\<close> when it does not parse as JSON, else the decoded
  document. \<open>request.get_json(silent=True)\<close> gives Python's \<open>None\<close> for a body that
  does not parse; the document \<open>null\<close> decodes to \<open>None\<close> as well.
\<close>

type_synonym request_body = "json option"

definition get_json :: "request_body \<Rightarrow> json" where
  "get_json b = (case b of None \<Rightarrow> JNull | Some j \<Rightarrow> j)"

record response =
  status :: nat
  payload :: json

definition jsonify :: "json \<Rightarrow> response" where
  "jsonify j = \<lparr>status = 200, payload = j\<rparr>"

text \<open>
  \<open>abort(code)\<close> and \<open>abort(code, description)\<close> end the request with that status;
  an exception that no handler catches ends it as well (the framework answers 500).
\<close>

datatype failure = HTTPError nat "string option" | Unhandled py_exception

definition abort :: "nat \<Rightarrow> string option \<Rightarrow> failure + response" where
  "abort code description = Inl (HTTPError code description)"

subsection \<open>Entities and the storage layer\<close>

text \<open>
  Modelled from the spec: the entity classes (Review, Place, User) are not part of the
  module. The spec describes an entity as an attribute bag with an id, timestamps and a
  \<open>to_json\<close> method that returns a mapping. An entity is the dictionary of its
  attributes (the \<open>__dict__\<close> of the instance), \<open>store_attr\<close> is a plain store
  into it, and \<open>to_json\<close> returns it.
\<close>

type_synonym entity = "(string \<times> json) list"

definition store_attr :: "entity \<Rightarrow> string \<Rightarrow> json \<Rightarrow> entity" where
  "store_attr obj key val = AList.update key val obj"

text \<open>
  Python's builtin \<open>setattr(obj, key, val)\<close> on an instance of a class, for a name and
  a value that come from a JSON document. Three names are not stored in the attribute
  dictionary: \<open>__class__\<close> must be a class, which no JSON value is; \<open>__dict__\<close>
  replaces the whole attribute dictionary when the value is a dictionary and is refused
  otherwise; \<open>__weakref__\<close> is not writable. Every other name is stored in the
  attribute dictionary, also the name of a method of the class.
\<close>

definition setattr :: "entity \<Rightarrow> string \<Rightarrow> json \<Rightarrow> py_exception + entity" where
  "setattr obj key val =
     (if key = ''__class__'' then Inl TypeError
      else if key = ''__dict__'' then (case val of JObj d \<Rightarrow> Inr d | _ \<Rightarrow> Inl TypeError)
      else if key = ''__weakref__'' then Inl AttributeError
      else Inr (store_attr obj key val))"

text \<open>
  \<open>obj.name\<close> looks in the attribute dictionary of the instance before it takes a
  method of the class: when the dictionary has the name, \<open>obj.name()\<close> calls the
  stored JSON value, which is a \<open>TypeError\<close>.
\<close>

definition shadowed :: "entity \<Rightarrow> string \<Rightarrow> bool" where
  "shadowed obj name = (map_of obj name \<noteq> None)"

definition to_json :: "entity \<Rightarrow> json" where
  "to_json obj = JObj obj"

text \<open>
  Modelled from the spec: the storage engine is not part of the module. The spec
  describes it as an object store addressed by (type name, id) with
  \<open>get(type_name, id) -> object|None\<close>, \<open>save() -> void\<close> and
  \<open>delete(object) -> void\<close>, where \<open>save\<close> persists and the removal of a review is
  persisted by the \<open>save\<close> after the \<open>delete\<close>. The state holds the live objects,
  the persisted copy that \<open>save\<close> writes, and the mutating calls issued so far.
\<close>

datatype storage_call = New_call string string | Save_call | Delete_call string string

record storage =
  objects :: "((string \<times> string) \<times> entity) list"
  persisted :: "((string \<times> string) \<times> entity) list"
  issued :: "storage_call list"

text \<open>
  Modelled from the spec: \<open>storage.get(type_name, id) -> object|None\<close> reads the
  live objects and changes nothing. The id of a lookup is whatever the handler passes
  (the create handler passes a value of the body); stored entities have string ids, so
  another value finds nothing.
\<close>

definition storage_get :: "storage \<Rightarrow> string \<Rightarrow> json \<Rightarrow> entity option" where
  "storage_get st cls ident =
     (case ident of JStr i \<Rightarrow> map_of (objects st) (cls, i) | _ \<Rightarrow> None)"

definition storage_new :: "string \<Rightarrow> string \<Rightarrow> entity \<Rightarrow> storage \<Rightarrow> storage" where
  "storage_new cls i obj st =
     st\<lparr>objects := AList.update (cls, i) obj (objects st),
        issued := issued st @ [New_call cls i]\<rparr>"

definition storage_save :: "storage \<Rightarrow> storage" where
  "storage_save st = st\<lparr>persisted := objects st, issued := issued st @ [Save_call]\<rparr>"

definition storage_delete :: "string \<Rightarrow> string \<Rightarrow> storage \<Rightarrow> storage" where
  "storage_delete cls i st =
     st\<lparr>objects := AList.delete (cls, i) (objects st),
        issued := issued st @ [Delete_call cls i]\<rparr>"

text \<open>
  Modelled from the spec: \<open>entity.save()\<close> is a method of the missing entity classes.
  The spec says that the created and the updated entity are persisted: the entity is
  registered with the store under its type and id, and the store is saved.
\<close>

definition entity_save :: "string \<Rightarrow> string \<Rightarrow> entity \<Rightarrow> storage \<Rightarrow> storage" where
  "entity_save cls i obj st = storage_save (storage_new cls i obj st)"

text \<open>
  The object that \<open>storage.get\<close> returns is the live object of the store, not a copy:
  an assignment to one of its attributes is a change of the live objects, with no call
  to the storage layer and nothing persisted.
\<close>

definition mutate_in_place :: "string \<Rightarrow> string \<Rightarrow> entity \<Rightarrow> storage \<Rightarrow> storage" where
  "mutate_in_place cls i obj st = st\<lparr>objects := AList.update (cls, i) obj (objects st)\<rparr>"

text \<open>
  Modelled from the spec: \<open>place.reviews\<close> is a property of the missing Place class,
  described as the ordered sequence of the Review objects associated with the place
  (the reviews whose \<open>place_id\<close> is the place's id), in the order of the store.
\<close>

definition place_reviews :: "storage \<Rightarrow> string \<Rightarrow> entity list" where
  "place_reviews st place_id =
     map snd (filter (\<lambda>(k, obj). fst k = ''Review'' \<and> map_of obj ''place_id'' = Some (JStr place_id))
                     (dict_items (objects st)))"

text \<open>
  What the server supplies to a request that creates an entity: the generated id and
  the reading of the clock.
\<close>

record server_env =
  fresh_id :: string
  now :: string

text \<open>
  Modelled from the spec: the constructor \<open>Review(**kwargs)\<close> is not part of the
  module. The spec says that the new Review is constructed from the merged attributes
  and that its \<open>id\<close> and timestamps are assigned by the server: the keyword arguments
  become attributes, then \<open>id\<close>, \<open>created_at\<close> and \<open>updated_at\<close> are assigned.
\<close>

definition Review_init :: "server_env \<Rightarrow> (string \<times> json) list \<Rightarrow> entity" where
  "Review_init e kwargs =
     (let obj0 = fold (\<lambda>(key, val) obj. store_attr obj key val) (dict_items kwargs) [];
          obj1 = store_attr obj0 ''id'' (JStr (fresh_id e));
          obj2 = store_attr obj1 ''created_at'' (JStr (now e))
      in store_attr obj2 ''updated_at'' (JStr (now e)))"

subsection \<open>The handlers\<close>

text \<open>
  A handler gets the path parameter as a string (so \<open>str(place_id)\<close> is the
  parameter itself), and an entity that \<open>storage.get\<close> returns is a true value:
  \<open>not storage.get(...)\<close> and \<open>... is None\<close> both ask whether the lookup gave
  \<open>None\<close>. The result of a handler is the response or the failure, with the storage
  state after the request.
\<close>

type_synonym outcome = "(failure + response) \<times> storage"

text \<open>
  GET /places/<place\_id>/reviews: the loop that appends the JSON of each review of the
  place to \<open>review_list\<close>, which starts empty.
\<close>

fun append_reviews :: "entity list \<Rightarrow> json list \<Rightarrow> json list" where
  "append_reviews [] review_list = review_list"
| "append_reviews (obj # rest) review_list = append_reviews rest (review_list @ [to_json obj])"

definition reviews_by_place :: "string \<Rightarrow> storage \<Rightarrow> outcome" where
  "reviews_by_place place_id st =
     (let review_list = [] in
      case storage_get st ''Place'' (JStr place_id) of
        None \<Rightarrow> (abort 404 None, st)
      | Some place_obj \<Rightarrow>
          (Inr (jsonify (JArr (append_reviews (place_reviews st place_id) review_list))), st))"

text \<open>
  POST /places/<place\_id>/reviews. The checks are in the order of the source: the body,
  the place, the user looked up by \<open>review_json["user_id"]\<close>, then the presence of
  \<open>user_id\<close> and of \<open>text\<close>.
\<close>

definition review_create :: "string \<Rightarrow> request_body \<Rightarrow> server_env \<Rightarrow> storage \<Rightarrow> outcome" where
  "review_create place_id request_body e st =
     (let review_json = get_json request_body in
      if review_json = JNull then (abort 400 (Some ''Not a JSON''), st)
      else if storage_get st ''Place'' (JStr place_id) = None then (abort 404 None, st)
      else (case py_getitem review_json ''user_id'' of
        Inl exn \<Rightarrow> (Inl (Unhandled exn), st)
      | Inr user_id \<Rightarrow>
          if storage_get st ''User'' user_id = None then (abort 404 None, st)
          else (case py_contains ''user_id'' review_json of
            Inl exn \<Rightarrow> (Inl (Unhandled exn), st)
          | Inr has_user_id \<Rightarrow>
              if \<not> has_user_id then (abort 400 (Some ''Missing user_id''), st)
              else (case py_contains ''text'' review_json of
                Inl exn \<Rightarrow> (Inl (Unhandled exn), st)
              | Inr has_text \<Rightarrow>
                  if \<not> has_text then (abort 400 (Some ''Missing text''), st)
                  else (case py_setitem review_json ''place_id'' (JStr place_id) of
                    Inl exn \<Rightarrow> (Inl (Unhandled exn), st)
                  | Inr (JObj kwargs) \<Rightarrow>
                      (let new_review = Review_init e kwargs;
                           st' = entity_save ''Review'' (fresh_id e) new_review st
                       in (Inr ((jsonify (to_json new_review))\<lparr>status := 201\<rparr>), st'))
                  | Inr _ \<Rightarrow> (Inl (Unhandled TypeError), st))))))"

text \<open>GET /reviews/<review\_id>\<close>

definition review_by_id :: "string \<Rightarrow> storage \<Rightarrow> outcome" where
  "review_by_id review_id st =
     (case storage_get st ''Review'' (JStr review_id) of
        None \<Rightarrow> (abort 404 None, st)
      | Some fetched_obj \<Rightarrow> (Inr (jsonify (to_json fetched_obj)), st))"

text \<open>
  PUT /reviews/<review\_id>. The loop over the items of the body assigns to the fetched
  object, which is the live object of the store, key by key; it stops at the first
  \<open>setattr\<close> that raises, with the assignments made so far in place. The loop gives
  the exception, if any, and the object as it then is. After the loop the handler calls
  \<open>fetched_obj.save()\<close> and then \<open>fetched_obj.to_json()\<close>, each of which fails when
  the object has an attribute of that name.
\<close>

definition protected_keys :: "string list" where
  "protected_keys = [''id'', ''created_at'', ''updated_at'', ''user_id'', ''place_id'']"

fun put_loop :: "(string \<times> json) list \<Rightarrow> entity \<Rightarrow> py_exception option \<times> entity" where
  "put_loop [] obj = (None, obj)"
| "put_loop ((key, val) # rest) obj =
     (if key \<notin> set protected_keys then
        (case setattr obj key val of
           Inl exn \<Rightarrow> (Some exn, obj)
         | Inr obj' \<Rightarrow> put_loop rest obj')
      else put_loop rest obj)"

definition review_put :: "string \<Rightarrow> request_body \<Rightarrow> storage \<Rightarrow> outcome" where
  "review_put review_id request_body st =
     (let place_json = get_json request_body in
      if place_json = JNull then (abort 400 (Some ''Not a JSON''), st)
      else (case storage_get st ''Review'' (JStr review_id) of
        None \<Rightarrow> (abort 404 None, st)
      | Some fetched_obj \<Rightarrow>
          (case py_items place_json of
             Inl exn \<Rightarrow> (Inl (Unhandled exn), st)
           | Inr items \<Rightarrow>
               (case put_loop items fetched_obj of
                  (Some exn, assigned) \<Rightarrow>
                    (Inl (Unhandled exn), mutate_in_place ''Review'' review_id assigned st)
                | (None, updated) \<Rightarrow>
                    (let live = mutate_in_place ''Review'' review_id updated st in
                     if shadowed updated ''save'' then (Inl (Unhandled TypeError), live)
                     else (let st' = entity_save ''Review'' review_id updated live in
                           if shadowed updated ''to_json'' then (Inl (Unhandled TypeError), st')
                           else (Inr (jsonify (to_json updated)), st')))))))"

text \<open>DELETE /reviews/<review\_id>\<close>

definition review_delete_by_id :: "string \<Rightarrow> storage \<Rightarrow> outcome" where
  "review_delete_by_id review_id st =
     (case storage_get st ''Review'' (JStr review_id) of
        None \<Rightarrow> (abort 404 None, st)
      | Some fetched_obj \<Rightarrow>
          (Inr (jsonify (JObj [])), storage_save (storage_delete ''Review'' review_id st)))"

text \<open>The five routes of the module, as the decorators register them.\<close>

datatype request =
    Get_place_reviews string
  | Post_place_reviews string request_body
  | Get_review string
  | Put_review string request_body
  | Delete_review string

fun handle :: "server_env \<Rightarrow> request \<Rightarrow> storage \<Rightarrow> outcome" where
  "handle e (Get_place_reviews place_id) st = reviews_by_place place_id st"
| "handle e (Post_place_reviews place_id b) st = review_create place_id b e st"
| "handle e (Get_review review_id) st = review_by_id review_id st"
| "handle e (Put_review review_id b) st = review_put review_id b st"
| "handle e (Delete_review review_id) st = review_delete_by_id review_id st"

subsection \<open>A store and requests to evaluate the handlers on\<close>

text \<open>
  A store with one place, one user and one review of the place by the user, all of it
  persisted, and what the server supplies to the next create.
\<close>

definition example_review :: entity where
  "example_review =
     [(''id'', JStr ''r1''), (''place_id'', JStr ''p1''), (''user_id'', JStr ''u1''),
      (''text'', JStr ''fine''), (''created_at'', JStr ''t0''), (''updated_at'', JStr ''t0'')]"

definition example_objects :: "((string \<times> string) \<times> entity) list" where
  "example_objects =
     [((''Place'', ''p1''), [(''id'', JStr ''p1'')]),
      ((''User'', ''u1''), [(''id'', JStr ''u1'')]),
      ((''Review'', ''r1''), example_review)]"

definition example_store :: storage where
  "example_store = \<lparr>objects = example_objects, persisted = example_objects, issued = []\<rparr>"

definition example_env :: server_env where
  "example_env = \<lparr>fresh_id = ''r2'', now = ''t1''\<rparr>"

section \<open>Properties\<close>

subsection \<open>The loops\<close>

lemma fold_store_attr_map_of:
  "distinct (map fst items) \<Longrightarrow>
   map_of (fold (\<lambda>(key, val) obj. store_attr obj key val) items obj) k =
     (case map_of items k of None \<Rightarrow> map_of obj k | Some v \<Rightarrow> Some v)"
proof (induction items arbitrary: obj)
  case Nil
  then show ?case by simp
next
  case (Cons kv rest)
  obtain key val where kv: "kv = (key, val)" by (cases kv)
  from Cons.prems kv have d: "distinct (map fst rest)" and nk: "map_of rest key = None"
    by (auto simp: map_of_eq_None_iff)
  show ?case
    using Cons.IH [OF d] nk kv
    by (auto simp: store_attr_def update_conv' split: option.splits)
qed

lemma Review_init_map_of:
  "map_of (Review_init e kwargs) k =
     (if k = ''updated_at'' \<or> k = ''created_at'' then Some (JStr (now e))
      else if k = ''id'' then Some (JStr (fresh_id e))
      else map_of kwargs k)"
  by (simp add: Review_init_def Let_def store_attr_def update_conv' dict_items_def
        fold_store_attr_map_of [unfolded store_attr_def] map_of_clearjunk split: option.splits)

lemma setattr_plain:
  "key \<noteq> ''__class__'' \<Longrightarrow> key \<noteq> ''__dict__'' \<Longrightarrow> key \<noteq> ''__weakref__'' \<Longrightarrow>
   setattr obj key val = Inr (AList.update key val obj)"
  by (simp add: setattr_def store_attr_def)

lemma put_loop_plain:
  assumes "distinct (map fst items)"
      and "map_of items ''__class__'' = None"
      and "map_of items ''__dict__'' = None"
      and "map_of items ''__weakref__'' = None"
  shows "\<exists>updated. put_loop items obj = (None, updated)
           \<and> (\<forall>k. map_of updated k =
                 (case map_of items k of
                    None \<Rightarrow> map_of obj k
                  | Some v \<Rightarrow>
                      if k \<in> {''id'', ''created_at'', ''updated_at'', ''user_id'', ''place_id''}
                      then map_of obj k else Some v))"
  using assms
proof (induction items arbitrary: obj)
  case Nil
  then show ?case by simp
next
  case (Cons kv rest)
  obtain key val where kv: "kv = (key, val)" by (cases kv)
  from Cons.prems kv have d: "distinct (map fst rest)" and nk: "map_of rest key = None"
    by (auto simp: map_of_eq_None_iff)
  from Cons.prems kv have plain: "key \<noteq> ''__class__''" "key \<noteq> ''__dict__''" "key \<noteq> ''__weakref__''"
    by (auto split: if_splits)
  from Cons.prems kv have rest: "map_of rest ''__class__'' = None" "map_of rest ''__dict__'' = None"
      "map_of rest ''__weakref__'' = None"
    by (auto split: if_splits)
  show ?case
  proof (cases "key \<in> set protected_keys")
    case True
    from Cons.IH [OF d rest, of obj] obtain updated where
      u: "put_loop rest obj = (None, updated)"
      and m: "\<forall>k. map_of updated k =
                 (case map_of rest k of
                    None \<Rightarrow> map_of obj k
                  | Some v \<Rightarrow>
                      if k \<in> {''id'', ''created_at'', ''updated_at'', ''user_id'', ''place_id''}
                      then map_of obj k else Some v)"
      by blast
    from True u have "put_loop (kv # rest) obj = (None, updated)"
      by (simp add: kv)
    moreover from True m nk have "\<forall>k. map_of updated k =
                 (case map_of (kv # rest) k of
                    None \<Rightarrow> map_of obj k
                  | Some v \<Rightarrow>
                      if k \<in> {''id'', ''created_at'', ''updated_at'', ''user_id'', ''place_id''}
                      then map_of obj k else Some v)"
      by (auto simp: kv protected_keys_def)
    ultimately show ?thesis by blast
  next
    case False
    from Cons.IH [OF d rest, of "AList.update key val obj"] obtain updated where
      u: "put_loop rest (AList.update key val obj) = (None, updated)"
      and m: "\<forall>k. map_of updated k =
                 (case map_of rest k of
                    None \<Rightarrow> map_of (AList.update key val obj) k
                  | Some v \<Rightarrow>
                      if k \<in> {''id'', ''created_at'', ''updated_at'', ''user_id'', ''place_id''}
                      then map_of (AList.update key val obj) k else Some v)"
      by blast
    from False u plain have "put_loop (kv # rest) obj = (None, updated)"
      by (simp add: kv setattr_plain)
    moreover from False m nk have "\<forall>k. map_of updated k =
                 (case map_of (kv # rest) k of
                    None \<Rightarrow> map_of obj k
                  | Some v \<Rightarrow>
                      if k \<in> {''id'', ''created_at'', ''updated_at'', ''user_id'', ''place_id''}
                      then map_of obj k else Some v)"
      by (auto simp: kv protected_keys_def update_conv' split: option.splits)
    ultimately show ?thesis by blast
  qed
qed


subsection \<open>The handlers, case by case\<close>

lemma review_create_not_parsed:
  "get_json b = JNull \<Longrightarrow>
   review_create place_id b e st = (Inl (HTTPError 400 (Some ''Not a JSON'')), st)"
  by (simp add: review_create_def abort_def)

lemma review_create_no_place:
  "get_json b \<noteq> JNull \<Longrightarrow> storage_get st ''Place'' (JStr place_id) = None \<Longrightarrow>
   review_create place_id b e st = (Inl (HTTPError 404 None), st)"
  by (simp add: review_create_def abort_def)

lemma review_create_dict:
  "storage_get st ''Place'' (JStr place_id) \<noteq> None \<Longrightarrow>
   review_create place_id (Some (JObj d)) e st =
     (case map_of d ''user_id'' of
        None \<Rightarrow> (Inl (Unhandled KeyError), st)
      | Some user_id \<Rightarrow>
          if storage_get st ''User'' user_id = None then (Inl (HTTPError 404 None), st)
          else if map_of d ''text'' = None then (Inl (HTTPError 400 (Some ''Missing text'')), st)
          else (Inr \<lparr>status = 201,
                     payload = to_json (Review_init e (AList.update ''place_id'' (JStr place_id) d))\<rparr>,
                entity_save ''Review'' (fresh_id e)
                  (Review_init e (AList.update ''place_id'' (JStr place_id) d)) st))"
  by (auto simp: review_create_def abort_def get_json_def jsonify_def Let_def
           split: option.splits)

lemma review_create_not_dict:
  "j \<noteq> JNull \<Longrightarrow> \<forall>d. j \<noteq> JObj d \<Longrightarrow> storage_get st ''Place'' (JStr place_id) \<noteq> None \<Longrightarrow>
   review_create place_id (Some j) e st = (Inl (Unhandled TypeError), st)"
  by (cases j) (auto simp: review_create_def get_json_def Let_def)

lemma review_create_success:
  assumes "fst (review_create place_id b e st) = Inr r"
  shows "\<exists>d user_id txt. b = Some (JObj d)
           \<and> storage_get st ''Place'' (JStr place_id) \<noteq> None
           \<and> map_of d ''user_id'' = Some user_id
           \<and> storage_get st ''User'' user_id \<noteq> None
           \<and> map_of d ''text'' = Some txt
           \<and> review_create place_id b e st =
               (Inr \<lparr>status = 201,
                     payload = to_json (Review_init e (AList.update ''place_id'' (JStr place_id) d))\<rparr>,
                entity_save ''Review'' (fresh_id e)
                  (Review_init e (AList.update ''place_id'' (JStr place_id) d)) st)"
proof (cases "get_json b = JNull")
  case True
  with assms show ?thesis by (simp add: review_create_not_parsed)
next
  case parsed: False
  show ?thesis
  proof (cases "storage_get st ''Place'' (JStr place_id) = None")
    case True
    with assms parsed show ?thesis by (simp add: review_create_no_place)
  next
    case place: False
    from parsed obtain j where b: "b = Some j" and j: "j \<noteq> JNull"
      by (cases b) (auto simp: get_json_def)
    show ?thesis
    proof (cases "\<exists>d. j = JObj d")
      case False
      with assms b j place show ?thesis by (simp add: review_create_not_dict)
    next
      case True
      then obtain d where d: "j = JObj d" ..
      from assms place show ?thesis
        unfolding b d by (auto simp: review_create_dict split: option.splits if_splits)
    qed
  qed
qed


lemma review_create_cases:
  "review_create place_id b e st =
     (if get_json b = JNull then (Inl (HTTPError 400 (Some ''Not a JSON'')), st)
      else if storage_get st ''Place'' (JStr place_id) = None then (Inl (HTTPError 404 None), st)
      else (case get_json b of
              JObj d \<Rightarrow>
                (case map_of d ''user_id'' of
                   None \<Rightarrow> (Inl (Unhandled KeyError), st)
                 | Some user_id \<Rightarrow>
                     if storage_get st ''User'' user_id = None then (Inl (HTTPError 404 None), st)
                     else if map_of d ''text'' = None
                       then (Inl (HTTPError 400 (Some ''Missing text'')), st)
                     else (Inr \<lparr>status = 201,
                                payload = to_json (Review_init e (AList.update ''place_id'' (JStr place_id) d))\<rparr>,
                           entity_save ''Review'' (fresh_id e)
                             (Review_init e (AList.update ''place_id'' (JStr place_id) d)) st))
            | _ \<Rightarrow> (Inl (Unhandled TypeError), st)))"
proof (cases "get_json b = JNull")
  case True
  then show ?thesis by (simp add: review_create_not_parsed)
next
  case parsed: False
  then obtain j where b: "b = Some j" and j: "j \<noteq> JNull"
    by (cases b) (auto simp: get_json_def)
  show ?thesis
  proof (cases "storage_get st ''Place'' (JStr place_id) = None")
    case True
    with parsed show ?thesis by (simp add: review_create_no_place)
  next
    case place: False
    show ?thesis
    proof (cases "\<exists>d. j = JObj d")
      case True
      then obtain d where d: "j = JObj d" ..
      from place obtain p where p: "storage_get st ''Place'' (JStr place_id) = Some p"
        by auto
      show ?thesis
        unfolding b d by (simp add: review_create_dict [OF place] get_json_def p)
    next
      case False
      then have nd: "\<forall>d. j \<noteq> JObj d" by simp
      have "review_create place_id b e st = (Inl (Unhandled TypeError), st)"
        unfolding b using j nd place by (rule review_create_not_dict)
      with j nd place show ?thesis
        unfolding b by (cases j) (simp_all add: get_json_def)
    qed
  qed
qed

lemma review_put_cases:
  "review_put review_id b st =
     (if get_json b = JNull then (Inl (HTTPError 400 (Some ''Not a JSON'')), st)
      else (case storage_get st ''Review'' (JStr review_id) of
              None \<Rightarrow> (Inl (HTTPError 404 None), st)
            | Some fetched_obj \<Rightarrow>
                (case get_json b of
                   JObj d \<Rightarrow>
                     (case put_loop (dict_items d) fetched_obj of
                        (Some exn, assigned) \<Rightarrow>
                          (Inl (Unhandled exn), mutate_in_place ''Review'' review_id assigned st)
                      | (None, updated) \<Rightarrow>
                          if shadowed updated ''save''
                          then (Inl (Unhandled TypeError),
                                mutate_in_place ''Review'' review_id updated st)
                          else if shadowed updated ''to_json''
                          then (Inl (Unhandled TypeError),
                                entity_save ''Review'' review_id updated
                                  (mutate_in_place ''Review'' review_id updated st))
                          else (Inr \<lparr>status = 200, payload = to_json updated\<rparr>,
                                entity_save ''Review'' review_id updated
                                  (mutate_in_place ''Review'' review_id updated st)))
                 | _ \<Rightarrow> (Inl (Unhandled AttributeError), st))))"
  by (cases "get_json b")
     (simp_all add: review_put_def abort_def jsonify_def Let_def split: option.splits prod.splits)

lemma storage_get_entity_save:
  "storage_get (entity_save cls i obj st) cls (JStr i) = Some obj"
  by (simp add: storage_get_def entity_save_def storage_save_def storage_new_def update_conv')

lemma persisted_entity_save:
  "persisted (entity_save cls i obj st) = objects (entity_save cls i obj st)"
  by (simp add: entity_save_def storage_save_def storage_new_def)

lemma issued_entity_save:
  "issued (entity_save cls i obj st) = issued st @ [New_call cls i, Save_call]"
  by (simp add: entity_save_def storage_save_def storage_new_def)

lemma storage_get_mutate_in_place:
  "storage_get (mutate_in_place cls i obj st) cls (JStr i) = Some obj"
  by (simp add: storage_get_def mutate_in_place_def update_conv')

subsection \<open>Failures of the create and update handlers\<close>

lemma review_create_never_missing_user_id:
  "fst (review_create place_id b e st) \<noteq> Inl (HTTPError 400 (Some ''Missing user_id''))"
  by (simp add: review_create_cases split: json.splits option.splits)

text \<open>
  C1. In the create handler the user is looked up by \<open>review_json["user_id"]\<close> before
  the presence of the key is tested. With the place existing, every object body without
  the key \<open>user_id\<close> ends in the \<open>KeyError\<close> of that lookup, with the store as it
  was; and no request at all is answered with 400 and the message "Missing user_id".
\<close>

theorem create_missing_user_id_faults:
  assumes "storage_get st ''Place'' (JStr place_id) \<noteq> None"
      and "map_of d ''user_id'' = None"
  shows "review_create place_id (Some (JObj d)) e st = (Inl (Unhandled KeyError), st)
       \<and> fst (review_create place_id' b e' st') \<noteq> Inl (HTTPError 400 (Some ''Missing user_id''))"
  using assms
  by (simp add: review_create_dict review_create_never_missing_user_id)

theorem create_missing_user_id_faults_witness:
  "storage_get example_store ''Place'' (JStr ''p1'') \<noteq> None
   \<and> map_of [(''text'', JStr ''great'')] ''user_id'' = None
   \<and> review_create ''p1'' (Some (JObj [(''text'', JStr ''great'')])) example_env example_store
       = (Inl (Unhandled KeyError), example_store)"
proof -
  have place: "storage_get example_store ''Place'' (JStr ''p1'') \<noteq> None"
    by (simp add: storage_get_def example_store_def example_objects_def)
  have key: "map_of [(''text'', JStr ''great'')] ''user_id'' = None"
    by simp
  from create_missing_user_id_faults [OF place key, of example_env]
  show ?thesis using place key by simp
qed

text \<open>
  C2, as the claim states it, fails: with no such place, a body that does not parse is
  answered with 400 "Not a JSON", not with 404, since the body is checked first.
\<close>

theorem create_unknown_place_counterexample:
  "storage_get example_store ''Place'' (JStr ''p9'') = None
   \<and> fst (review_create ''p9'' None example_env example_store)
       = Inl (HTTPError 400 (Some ''Not a JSON''))
   \<and> fst (review_create ''p9'' None example_env example_store) \<noteq> Inl (HTTPError 404 None)"
  by (simp add: review_create_def get_json_def abort_def storage_get_def example_store_def
        example_objects_def)

text \<open>
  C2, amended. For every create request under a place id for which no Place exists:
  when the body parses as JSON (\<open>get_json\<close> does not give \<open>None\<close>) the answer is 404
  whatever the body contains, and when it does not the answer is 400 "Not a JSON".
  The store is unchanged in both cases.
\<close>

theorem create_unknown_place:
  assumes "storage_get st ''Place'' (JStr place_id) = None"
  shows "review_create place_id b e st =
           (if get_json b = JNull then (Inl (HTTPError 400 (Some ''Not a JSON'')), st)
            else (Inl (HTTPError 404 None), st))"
  using assms by (simp add: review_create_not_parsed review_create_no_place)

theorem create_unknown_place_witness:
  "storage_get example_store ''Place'' (JStr ''p9'') = None
   \<and> review_create ''p9'' (Some (JArr [JNum 1])) example_env example_store
       = (Inl (HTTPError 404 None), example_store)
   \<and> review_create ''p9'' None example_env example_store
       = (Inl (HTTPError 400 (Some ''Not a JSON'')), example_store)"
proof -
  have place: "storage_get example_store ''Place'' (JStr ''p9'') = None"
    by (simp add: storage_get_def example_store_def example_objects_def)
  from create_unknown_place [OF place, of "Some (JArr [JNum 1])" example_env]
       create_unknown_place [OF place, of None example_env]
  show ?thesis using place by (simp add: get_json_def)
qed

text \<open>
  C9. A body that parses as JSON and is neither \<open>null\<close> nor an object (an array, a
  number, a string, a boolean) passes the "Not a JSON" check: with the place existing the
  create handler ends in the \<open>TypeError\<close> of indexing it by \<open>"user_id"\<close>, and with
  the review existing the update handler ends in the \<open>AttributeError\<close> of
  \<open>.items()\<close>. Both handlers answer 400 "Not a JSON" exactly when \<open>get_json\<close> gives
  \<open>None\<close>.
\<close>

theorem non_object_body_unhandled:
  assumes "j \<noteq> JNull" and "\<forall>d. j \<noteq> JObj d"
  shows "(storage_get st ''Place'' (JStr place_id) \<noteq> None \<longrightarrow>
            review_create place_id (Some j) e st = (Inl (Unhandled TypeError), st))
       \<and> (storage_get st ''Review'' (JStr review_id) \<noteq> None \<longrightarrow>
            review_put review_id (Some j) st = (Inl (Unhandled AttributeError), st))
       \<and> ((fst (review_create place_id b e st) = Inl (HTTPError 400 (Some ''Not a JSON'')))
            = (get_json b = JNull))
       \<and> ((fst (review_put review_id b st) = Inl (HTTPError 400 (Some ''Not a JSON'')))
            = (get_json b = JNull))"
proof (intro conjI impI)
  assume "storage_get st ''Place'' (JStr place_id) \<noteq> None"
  with assms show "review_create place_id (Some j) e st = (Inl (Unhandled TypeError), st)"
    by (simp add: review_create_not_dict)
next
  assume "storage_get st ''Review'' (JStr review_id) \<noteq> None"
  with assms show "review_put review_id (Some j) st = (Inl (Unhandled AttributeError), st)"
    by (cases j) (auto simp: review_put_cases get_json_def)
next
  show "(fst (review_create place_id b e st) = Inl (HTTPError 400 (Some ''Not a JSON'')))
          = (get_json b = JNull)"
    by (simp add: review_create_cases split: json.splits option.splits)
next
  show "(fst (review_put review_id b st) = Inl (HTTPError 400 (Some ''Not a JSON'')))
          = (get_json b = JNull)"
    by (simp add: review_put_cases split: json.splits option.splits prod.splits)
qed

theorem non_object_body_unhandled_witness:
  "JArr [JNum 1] \<noteq> JNull \<and> (\<forall>d. JArr [JNum 1] \<noteq> JObj d)
   \<and> storage_get example_store ''Place'' (JStr ''p1'') \<noteq> None
   \<and> review_create ''p1'' (Some (JArr [JNum 1])) example_env example_store
       = (Inl (Unhandled TypeError), example_store)
   \<and> storage_get example_store ''Review'' (JStr ''r1'') \<noteq> None
   \<and> review_put ''r1'' (Some (JArr [JNum 1])) example_store
       = (Inl (Unhandled AttributeError), example_store)"
proof -
  have j: "JArr [JNum 1] \<noteq> JNull" by simp
  have nd: "\<forall>d. JArr [JNum 1] \<noteq> JObj d" by simp
  have place: "storage_get example_store ''Place'' (JStr ''p1'') \<noteq> None"
    by (simp add: storage_get_def example_store_def example_objects_def)
  have review: "storage_get example_store ''Review'' (JStr ''r1'') \<noteq> None"
    by (simp add: storage_get_def example_store_def example_objects_def)
  from non_object_body_unhandled [OF j nd, of example_store "''p1''" example_env "''r1''"]
  show ?thesis using j nd place review by simp
qed

subsection \<open>Failed requests and the store\<close>

lemma handler_abort_cases:
  "fst (reviews_by_place place_id st) = Inl (HTTPError code description) \<Longrightarrow>
     snd (reviews_by_place place_id st) = st \<and> (code = 400 \<or> code = 404)"
  "fst (review_create place_id b e st) = Inl (HTTPError code description) \<Longrightarrow>
     snd (review_create place_id b e st) = st \<and> (code = 400 \<or> code = 404)"
  "fst (review_by_id review_id st) = Inl (HTTPError code description) \<Longrightarrow>
     snd (review_by_id review_id st) = st \<and> (code = 400 \<or> code = 404)"
  "fst (review_put review_id b st) = Inl (HTTPError code description) \<Longrightarrow>
     snd (review_put review_id b st) = st \<and> (code = 400 \<or> code = 404)"
  "fst (review_delete_by_id review_id st) = Inl (HTTPError code description) \<Longrightarrow>
     snd (review_delete_by_id review_id st) = st \<and> (code = 400 \<or> code = 404)"
proof -
  show "fst (reviews_by_place place_id st) = Inl (HTTPError code description) \<Longrightarrow>
     snd (reviews_by_place place_id st) = st \<and> (code = 400 \<or> code = 404)"
    by (simp add: reviews_by_place_def abort_def split: option.splits)
  show "fst (review_create place_id b e st) = Inl (HTTPError code description) \<Longrightarrow>
     snd (review_create place_id b e st) = st \<and> (code = 400 \<or> code = 404)"
    by (simp add: review_create_cases split: json.splits option.splits if_splits)
  show "fst (review_by_id review_id st) = Inl (HTTPError code description) \<Longrightarrow>
     snd (review_by_id review_id st) = st \<and> (code = 400 \<or> code = 404)"
    by (simp add: review_by_id_def abort_def split: option.splits)
  show "fst (review_put review_id b st) = Inl (HTTPError code description) \<Longrightarrow>
     snd (review_put review_id b st) = st \<and> (code = 400 \<or> code = 404)"
    by (simp add: review_put_cases split: json.splits option.splits if_splits prod.splits)
  show "fst (review_delete_by_id review_id st) = Inl (HTTPError code description) \<Longrightarrow>
     snd (review_delete_by_id review_id st) = st \<and> (code = 400 \<or> code = 404)"
    by (simp add: review_delete_by_id_def abort_def split: option.splits)
qed

text \<open>
  An exception of the update handler is another matter than an abort. A body with the key
  \<open>save\<close> is assigned to the live review before \<open>fetched_obj.save()\<close> fails, and a
  body with the key \<open>to_json\<close> is assigned and saved before \<open>fetched_obj.to_json()\<close>
  fails.
\<close>

lemma put_unhandled_after_assignment:
  "review_put ''r1'' (Some (JObj [(''save'', JNum 1)])) example_store
     = (Inl (Unhandled TypeError),
        example_store\<lparr>objects :=
          [((''Place'', ''p1''), [(''id'', JStr ''p1'')]),
           ((''User'', ''u1''), [(''id'', JStr ''u1'')]),
           ((''Review'', ''r1''), example_review @ [(''save'', JNum 1)])]\<rparr>)
   \<and> fst (review_put ''r1'' (Some (JObj [(''to_json'', JNum 1)])) example_store)
     = Inl (Unhandled TypeError)
   \<and> issued (snd (review_put ''r1'' (Some (JObj [(''to_json'', JNum 1)])) example_store))
     = [New_call ''Review'' ''r1'', Save_call]
   \<and> map_of (persisted (snd (review_put ''r1'' (Some (JObj [(''to_json'', JNum 1)])) example_store)))
        (''Review'', ''r1'')
     = Some (example_review @ [(''to_json'', JNum 1)])"
  by (simp add: review_put_def get_json_def storage_get_def example_store_def example_objects_def
        example_review_def dict_items_def protected_keys_def setattr_def store_attr_def
        shadowed_def mutate_in_place_def entity_save_def storage_save_def storage_new_def Let_def)

text \<open>
  C8. A request to any of the five handlers that ends in an abort, which is always one
  with status 400 or 404, leaves the storage state as it was: no call of \<open>new\<close>,
  \<open>save\<close> or \<open>delete\<close> has been issued, and the live and the persisted objects are
  unchanged.
\<close>

theorem error_leaves_store_unchanged:
  assumes "fst (handle e rq st) = Inl (HTTPError code description)"
  shows "snd (handle e rq st) = st
       \<and> issued (snd (handle e rq st)) = issued st
       \<and> objects (snd (handle e rq st)) = objects st
       \<and> persisted (snd (handle e rq st)) = persisted st
       \<and> (code = 400 \<or> code = 404)"
proof -
  from assms have "snd (handle e rq st) = st \<and> (code = 400 \<or> code = 404)"
    by (cases rq) (simp_all add: handler_abort_cases)
  then show ?thesis by simp
qed

theorem error_leaves_store_unchanged_witness:
  "fst (handle example_env (Put_review ''r9'' (Some (JObj [(''text'', JStr ''x'')]))) example_store)
     = Inl (HTTPError 404 None)
   \<and> snd (handle example_env (Put_review ''r9'' (Some (JObj [(''text'', JStr ''x'')]))) example_store)
     = example_store
   \<and> fst (handle example_env (Post_place_reviews ''p1'' None) example_store)
     = Inl (HTTPError 400 (Some ''Not a JSON''))
   \<and> snd (handle example_env (Post_place_reviews ''p1'' None) example_store) = example_store
   \<and> issued (snd (handle example_env (Post_place_reviews ''p1'' None) example_store)) = []"
proof -
  have missing:
    "fst (handle example_env (Put_review ''r9'' (Some (JObj [(''text'', JStr ''x'')]))) example_store)
       = Inl (HTTPError 404 None)"
    by (simp add: review_put_def get_json_def storage_get_def abort_def example_store_def
          example_objects_def)
  have unparsed:
    "fst (handle example_env (Post_place_reviews ''p1'' None) example_store)
       = Inl (HTTPError 400 (Some ''Not a JSON''))"
    by (simp add: review_create_def get_json_def abort_def)
  from error_leaves_store_unchanged [OF missing] error_leaves_store_unchanged [OF unparsed]
  show ?thesis using missing unparsed by (simp add: example_store_def)
qed

subsection \<open>Listing the reviews of a place\<close>



subsection \<open>Creating a review\<close>



text \<open>
  C10. After every successful create the review stored (and persisted) under the new id
  has the place id of the path as its \<open>place_id\<close>, and so has the JSON returned,
  whatever \<open>place_id\<close> the body carried: the handler assigns
  \<open>review_json["place_id"] = place_id\<close> before it constructs the Review.
\<close>

theorem create_place_id_from_path:
  assumes "fst (review_create place_id b e st) = Inr r"
  shows "\<exists>obj. storage_get (snd (review_create place_id b e st)) ''Review'' (JStr (fresh_id e))
                 = Some obj
           \<and> map_of (persisted (snd (review_create place_id b e st))) (''Review'', fresh_id e)
                 = Some obj
           \<and> map_of obj ''place_id'' = Some (JStr place_id)
           \<and> payload r = to_json obj"
proof -
  from review_create_success [OF assms] obtain d where
    run: "review_create place_id b e st =
            (Inr \<lparr>status = 201,
                  payload = to_json (Review_init e (AList.update ''place_id'' (JStr place_id) d))\<rparr>,
             entity_save ''Review'' (fresh_id e)
               (Review_init e (AList.update ''place_id'' (JStr place_id) d)) st)"
    by blast
  let ?obj = "Review_init e (AList.update ''place_id'' (JStr place_id) d)"
  have stored: "storage_get (entity_save ''Review'' (fresh_id e) ?obj st) ''Review''
                  (JStr (fresh_id e)) = Some ?obj"
    by (rule storage_get_entity_save)
  then have "map_of (persisted (entity_save ''Review'' (fresh_id e) ?obj st))
               (''Review'', fresh_id e) = Some ?obj"
    by (simp add: persisted_entity_save storage_get_def)
  moreover have "map_of ?obj ''place_id'' = Some (JStr place_id)"
    by (simp add: Review_init_map_of update_conv')
  moreover from assms run have "payload r = to_json ?obj" by auto
  ultimately show ?thesis using stored by (simp add: run)
qed

theorem create_place_id_from_path_witness:
  "fst (review_create ''p1''
          (Some (JObj [(''place_id'', JStr ''elsewhere''), (''user_id'', JStr ''u1''),
                       (''text'', JStr ''great'')])) example_env example_store)
     = Inr \<lparr>status = 201, payload = JObj
         [(''place_id'', JStr ''p1''), (''user_id'', JStr ''u1''), (''text'', JStr ''great''),
          (''id'', JStr ''r2''), (''created_at'', JStr ''t1''), (''updated_at'', JStr ''t1'')]\<rparr>
   \<and> (\<exists>obj. storage_get
          (snd (review_create ''p1''
             (Some (JObj [(''place_id'', JStr ''elsewhere''), (''user_id'', JStr ''u1''),
                          (''text'', JStr ''great'')])) example_env example_store))
          ''Review'' (JStr ''r2'') = Some obj
        \<and> map_of obj ''place_id'' = Some (JStr ''p1''))"
proof -
  have created:
    "fst (review_create ''p1''
          (Some (JObj [(''place_id'', JStr ''elsewhere''), (''user_id'', JStr ''u1''),
                       (''text'', JStr ''great'')])) example_env example_store)
     = Inr \<lparr>status = 201, payload = JObj
         [(''place_id'', JStr ''p1''), (''user_id'', JStr ''u1''), (''text'', JStr ''great''),
          (''id'', JStr ''r2''), (''created_at'', JStr ''t1''), (''updated_at'', JStr ''t1'')]\<rparr>"
    by (simp add: review_create_def get_json_def storage_get_def example_store_def
          example_objects_def example_env_def Review_init_def dict_items_def store_attr_def
          jsonify_def to_json_def Let_def entity_save_def)
  from create_place_id_from_path [OF created]
  show ?thesis using created by (auto simp: example_env_def)
qed

lemma review_by_id_after_save:
  "review_by_id i (entity_save ''Review'' i obj st) =
     (Inr \<lparr>status = 200, payload = to_json obj\<rparr>, entity_save ''Review'' i obj st)"
  by (simp add: review_by_id_def storage_get_entity_save jsonify_def)

text \<open>
  C4. Round trip: after every successful create, the JSON returned carries the new id,
  and fetching the review by that id in the resulting store answers 200 with the same
  JSON as the create returned; the fetch leaves the store as it is.
\<close>

theorem create_then_get_roundtrip:
  assumes "fst (review_create place_id b e st) = Inr r"
  shows "status r = 201
       \<and> py_getitem (payload r) ''id'' = Inr (JStr (fresh_id e))
       \<and> fst (review_by_id (fresh_id e) (snd (review_create place_id b e st)))
           = Inr \<lparr>status = 200, payload = payload r\<rparr>
       \<and> snd (review_by_id (fresh_id e) (snd (review_create place_id b e st)))
           = snd (review_create place_id b e st)"
proof -
  from review_create_success [OF assms] obtain d where
    run: "review_create place_id b e st =
            (Inr \<lparr>status = 201,
                  payload = to_json (Review_init e (AList.update ''place_id'' (JStr place_id) d))\<rparr>,
             entity_save ''Review'' (fresh_id e)
               (Review_init e (AList.update ''place_id'' (JStr place_id) d)) st)"
    by blast
  from assms run have r: "r = \<lparr>status = 201,
       payload = to_json (Review_init e (AList.update ''place_id'' (JStr place_id) d))\<rparr>"
    by simp
  have "py_getitem (payload r) ''id'' = Inr (JStr (fresh_id e))"
    by (simp add: r to_json_def Review_init_map_of)
  then show ?thesis
    by (simp add: run review_by_id_after_save) (simp add: r)
qed

theorem create_then_get_roundtrip_witness:
  "fst (review_create ''p1'' (Some (JObj [(''user_id'', JStr ''u1''), (''text'', JStr ''great'')]))
          example_env example_store)
     = Inr \<lparr>status = 201, payload = JObj
         [(''user_id'', JStr ''u1''), (''text'', JStr ''great''), (''place_id'', JStr ''p1''),
          (''id'', JStr ''r2''), (''created_at'', JStr ''t1''), (''updated_at'', JStr ''t1'')]\<rparr>
   \<and> fst (review_by_id ''r2''
          (snd (review_create ''p1'' (Some (JObj [(''user_id'', JStr ''u1''), (''text'', JStr ''great'')]))
                  example_env example_store)))
     = Inr \<lparr>status = 200, payload = JObj
         [(''user_id'', JStr ''u1''), (''text'', JStr ''great''), (''place_id'', JStr ''p1''),
          (''id'', JStr ''r2''), (''created_at'', JStr ''t1''), (''updated_at'', JStr ''t1'')]\<rparr>"
proof -
  have created:
    "fst (review_create ''p1'' (Some (JObj [(''user_id'', JStr ''u1''), (''text'', JStr ''great'')]))
            example_env example_store)
       = Inr \<lparr>status = 201, payload = JObj
           [(''user_id'', JStr ''u1''), (''text'', JStr ''great''), (''place_id'', JStr ''p1''),
            (''id'', JStr ''r2''), (''created_at'', JStr ''t1''), (''updated_at'', JStr ''t1'')]\<rparr>"
    by (simp add: review_create_def get_json_def storage_get_def example_store_def
          example_objects_def example_env_def Review_init_def dict_items_def store_attr_def
          jsonify_def to_json_def Let_def entity_save_def)
  from create_then_get_roundtrip [OF created]
  show ?thesis using created by (simp add: example_env_def)
qed

subsection \<open>Updating a review\<close>

text \<open>
  C3, as the claim states it, fails for a body with one of the three names that
  \<open>setattr\<close> does not store. With the key \<open>__class__\<close> first, \<open>setattr\<close> raises
  before \<open>text\<close> is assigned: the request ends in a \<open>TypeError\<close> and the text of
  the review is as it was; with \<open>__weakref__\<close> it ends in an \<open>AttributeError\<close>. With
  the key \<open>__dict__\<close> and a dictionary as its value the attribute dictionary of the
  review is replaced, and the protected \<open>id\<close> with it.
\<close>

theorem put_overwrites_unprotected_only_counterexample:
  "storage_get example_store ''Review'' (JStr ''r1'') = Some example_review
   \<and> map_of example_review ''text'' = Some (JStr ''fine'')
   \<and> map_of example_review ''id'' = Some (JStr ''r1'')
   \<and> review_put ''r1'' (Some (JObj [(''__class__'', JStr ''x''), (''text'', JStr ''updated'')]))
        example_store
     = (Inl (Unhandled TypeError), example_store)
   \<and> review_put ''r1'' (Some (JObj [(''__weakref__'', JNum 1), (''text'', JStr ''updated'')]))
        example_store
     = (Inl (Unhandled AttributeError), example_store)
   \<and> storage_get
        (snd (review_put ''r1'' (Some (JObj [(''__dict__'', JObj [(''id'', JStr ''other'')])]))
                example_store))
        ''Review'' (JStr ''r1'')
     = Some [(''id'', JStr ''other'')]"
  by (simp add: review_put_def get_json_def storage_get_def example_store_def example_objects_def
        example_review_def dict_items_def protected_keys_def setattr_def store_attr_def
        shadowed_def mutate_in_place_def entity_save_def storage_save_def storage_new_def Let_def)

text \<open>
  C3, amended. For every existing review and every object body that has none of the keys
  \<open>__class__\<close>, \<open>__dict__\<close> and \<open>__weakref__\<close>, the review that the store
  holds after the update has, for every key of the body outside \<open>id\<close>,
  \<open>created_at\<close>, \<open>updated_at\<close>, \<open>user_id\<close> and \<open>place_id\<close>, the value of the
  body (a key the review did not have is added); each of these five keys has the value it
  had before, whether or not the body names it; and a key that the body does not name is
  as before. When the review then has no attribute named \<open>save\<close> or \<open>to_json\<close>, the
  answer is 200 with the updated review, which is persisted.
\<close>

theorem put_overwrites_unprotected_only:
  assumes "storage_get st ''Review'' (JStr review_id) = Some obj"
      and "map_of d ''__class__'' = None"
      and "map_of d ''__dict__'' = None"
      and "map_of d ''__weakref__'' = None"
  shows "\<exists>updated.
           storage_get (snd (review_put review_id (Some (JObj d)) st)) ''Review'' (JStr review_id)
             = Some updated
         \<and> (\<forall>key val. key \<notin> {''id'', ''created_at'', ''updated_at'', ''user_id'', ''place_id''} \<longrightarrow>
               map_of d key = Some val \<longrightarrow> map_of updated key = Some val)
         \<and> (\<forall>key \<in> {''id'', ''created_at'', ''updated_at'', ''user_id'', ''place_id''}.
               map_of updated key = map_of obj key)
         \<and> (\<forall>key. map_of d key = None \<longrightarrow> map_of updated key = map_of obj key)
         \<and> (\<not> shadowed updated ''save'' \<longrightarrow> \<not> shadowed updated ''to_json'' \<longrightarrow>
               fst (review_put review_id (Some (JObj d)) st)
                 = Inr \<lparr>status = 200, payload = to_json updated\<rparr>
             \<and> map_of (persisted (snd (review_put review_id (Some (JObj d)) st)))
                 (''Review'', review_id) = Some updated)"
proof -
  have "distinct (map fst (dict_items d))"
    by (simp add: dict_items_def)
  moreover from assms(2-4) have "map_of (dict_items d) ''__class__'' = None"
      "map_of (dict_items d) ''__dict__'' = None" "map_of (dict_items d) ''__weakref__'' = None"
    by (simp_all add: dict_items_def map_of_clearjunk)
  ultimately obtain updated where
    loop: "put_loop (dict_items d) obj = (None, updated)"
    and merged: "\<forall>k. map_of updated k =
                 (case map_of (dict_items d) k of
                    None \<Rightarrow> map_of obj k
                  | Some v \<Rightarrow>
                      if k \<in> {''id'', ''created_at'', ''updated_at'', ''user_id'', ''place_id''}
                      then map_of obj k else Some v)"
    using put_loop_plain [of "dict_items d" obj] by blast
  from merged have attr: "\<And>k. map_of updated k =
                 (case map_of d k of
                    None \<Rightarrow> map_of obj k
                  | Some v \<Rightarrow>
                      if k \<in> {''id'', ''created_at'', ''updated_at'', ''user_id'', ''place_id''}
                      then map_of obj k else Some v)"
    by (simp add: dict_items_def map_of_clearjunk)
  let ?live = "mutate_in_place ''Review'' review_id updated st"
  let ?saved = "entity_save ''Review'' review_id updated ?live"
  have run: "review_put review_id (Some (JObj d)) st =
          (if shadowed updated ''save'' then (Inl (Unhandled TypeError), ?live)
           else if shadowed updated ''to_json'' then (Inl (Unhandled TypeError), ?saved)
           else (Inr \<lparr>status = 200, payload = to_json updated\<rparr>, ?saved))"
    using assms(1) loop by (simp add: review_put_cases get_json_def)
  have live: "storage_get ?live ''Review'' (JStr review_id) = Some updated"
    by (rule storage_get_mutate_in_place)
  have saved: "storage_get ?saved ''Review'' (JStr review_id) = Some updated"
    by (rule storage_get_entity_save)
  then have kept: "map_of (persisted ?saved) (''Review'', review_id) = Some updated"
    by (simp add: persisted_entity_save storage_get_def)
  have "storage_get (snd (review_put review_id (Some (JObj d)) st)) ''Review'' (JStr review_id)
          = Some updated"
    using live saved by (simp add: run)
  moreover have "\<forall>key val. key \<notin> {''id'', ''created_at'', ''updated_at'', ''user_id'', ''place_id''} \<longrightarrow>
               map_of d key = Some val \<longrightarrow> map_of updated key = Some val"
    by (simp add: attr)
  moreover have "\<forall>key \<in> {''id'', ''created_at'', ''updated_at'', ''user_id'', ''place_id''}.
               map_of updated key = map_of obj key"
    by (simp add: attr split: option.splits)
  moreover have "\<forall>key. map_of d key = None \<longrightarrow> map_of updated key = map_of obj key"
    by (simp add: attr)
  moreover have "\<not> shadowed updated ''save'' \<longrightarrow> \<not> shadowed updated ''to_json'' \<longrightarrow>
               fst (review_put review_id (Some (JObj d)) st)
                 = Inr \<lparr>status = 200, payload = to_json updated\<rparr>
             \<and> map_of (persisted (snd (review_put review_id (Some (JObj d)) st)))
                 (''Review'', review_id) = Some updated"
    using kept by (simp add: run)
  ultimately show ?thesis by blast
qed

theorem put_overwrites_unprotected_only_witness:
  "storage_get example_store ''Review'' (JStr ''r1'') = Some example_review
   \<and> map_of [(''text'', JStr ''updated''), (''id'', JStr ''ignored''),
              (''created_at'', JStr ''ignored''), (''updated_at'', JStr ''ignored''),
              (''user_id'', JStr ''ignored''), (''place_id'', JStr ''ignored''),
              (''stars'', JNum 5)] ''__class__'' = None
   \<and> map_of [(''text'', JStr ''updated''), (''id'', JStr ''ignored''),
              (''created_at'', JStr ''ignored''), (''updated_at'', JStr ''ignored''),
              (''user_id'', JStr ''ignored''), (''place_id'', JStr ''ignored''),
              (''stars'', JNum 5)] ''__dict__'' = None
   \<and> map_of [(''text'', JStr ''updated''), (''id'', JStr ''ignored''),
              (''created_at'', JStr ''ignored''), (''updated_at'', JStr ''ignored''),
              (''user_id'', JStr ''ignored''), (''place_id'', JStr ''ignored''),
              (''stars'', JNum 5)] ''__weakref__'' = None
   \<and> (\<exists>updated.
         storage_get
           (snd (review_put ''r1''
              (Some (JObj [(''text'', JStr ''updated''), (''id'', JStr ''ignored''),
                           (''created_at'', JStr ''ignored''), (''updated_at'', JStr ''ignored''),
                           (''user_id'', JStr ''ignored''), (''place_id'', JStr ''ignored''),
                           (''stars'', JNum 5)])) example_store))
           ''Review'' (JStr ''r1'') = Some updated
       \<and> map_of updated ''text'' = Some (JStr ''updated'')
       \<and> map_of updated ''stars'' = Some (JNum 5)
       \<and> map_of updated ''id'' = Some (JStr ''r1'')
       \<and> map_of updated ''created_at'' = Some (JStr ''t0'')
       \<and> map_of updated ''updated_at'' = Some (JStr ''t0'')
       \<and> map_of updated ''user_id'' = Some (JStr ''u1'')
       \<and> map_of updated ''place_id'' = Some (JStr ''p1''))
   \<and> review_put ''r1''
        (Some (JObj [(''text'', JStr ''updated''), (''id'', JStr ''ignored''),
                     (''created_at'', JStr ''ignored''), (''updated_at'', JStr ''ignored''),
                     (''user_id'', JStr ''ignored''), (''place_id'', JStr ''ignored''),
                     (''stars'', JNum 5)])) example_store
     = (Inr \<lparr>status = 200, payload = JObj
          [(''id'', JStr ''r1''), (''place_id'', JStr ''p1''), (''user_id'', JStr ''u1''),
           (''text'', JStr ''updated''), (''created_at'', JStr ''t0''),
           (''updated_at'', JStr ''t0''), (''stars'', JNum 5)]\<rparr>,
        \<lparr>objects =
           [((''Place'', ''p1''), [(''id'', JStr ''p1'')]),
            ((''User'', ''u1''), [(''id'', JStr ''u1'')]),
            ((''Review'', ''r1''),
             [(''id'', JStr ''r1''), (''place_id'', JStr ''p1''), (''user_id'', JStr ''u1''),
              (''text'', JStr ''updated''), (''created_at'', JStr ''t0''),
              (''updated_at'', JStr ''t0''), (''stars'', JNum 5)])],
         persisted =
           [((''Place'', ''p1''), [(''id'', JStr ''p1'')]),
            ((''User'', ''u1''), [(''id'', JStr ''u1'')]),
            ((''Review'', ''r1''),
             [(''id'', JStr ''r1''), (''place_id'', JStr ''p1''), (''user_id'', JStr ''u1''),
              (''text'', JStr ''updated''), (''created_at'', JStr ''t0''),
              (''updated_at'', JStr ''t0''), (''stars'', JNum 5)])],
         issued = [New_call ''Review'' ''r1'', Save_call]\<rparr>)"
proof -
  let ?d = "[(''text'', JStr ''updated''), (''id'', JStr ''ignored''),
             (''created_at'', JStr ''ignored''), (''updated_at'', JStr ''ignored''),
             (''user_id'', JStr ''ignored''), (''place_id'', JStr ''ignored''),
             (''stars'', JNum 5)]"
  have concrete: "review_put ''r1'' (Some (JObj ?d)) example_store
     = (Inr \<lparr>status = 200, payload = JObj
          [(''id'', JStr ''r1''), (''place_id'', JStr ''p1''), (''user_id'', JStr ''u1''),
           (''text'', JStr ''updated''), (''created_at'', JStr ''t0''),
           (''updated_at'', JStr ''t0''), (''stars'', JNum 5)]\<rparr>,
        \<lparr>objects =
           [((''Place'', ''p1''), [(''id'', JStr ''p1'')]),
            ((''User'', ''u1''), [(''id'', JStr ''u1'')]),
            ((''Review'', ''r1''),
             [(''id'', JStr ''r1''), (''place_id'', JStr ''p1''), (''user_id'', JStr ''u1''),
              (''text'', JStr ''updated''), (''created_at'', JStr ''t0''),
              (''updated_at'', JStr ''t0''), (''stars'', JNum 5)])],
         persisted =
           [((''Place'', ''p1''), [(''id'', JStr ''p1'')]),
            ((''User'', ''u1''), [(''id'', JStr ''u1'')]),
            ((''Review'', ''r1''),
             [(''id'', JStr ''r1''), (''place_id'', JStr ''p1''), (''user_id'', JStr ''u1''),
              (''text'', JStr ''updated''), (''created_at'', JStr ''t0''),
              (''updated_at'', JStr ''t0''), (''stars'', JNum 5)])],
         issued = [New_call ''Review'' ''r1'', Save_call]\<rparr>)"
    by (simp add: review_put_def get_json_def storage_get_def example_store_def
          example_objects_def example_review_def dict_items_def protected_keys_def setattr_def
          store_attr_def shadowed_def mutate_in_place_def entity_save_def storage_save_def
          storage_new_def jsonify_def to_json_def Let_def)
  have review: "storage_get example_store ''Review'' (JStr ''r1'') = Some example_review"
    by (simp add: storage_get_def example_store_def example_objects_def)
  have k1: "map_of ?d ''__class__'' = None" by simp
  have k2: "map_of ?d ''__dict__'' = None" by simp
  have k3: "map_of ?d ''__weakref__'' = None" by simp
  from put_overwrites_unprotected_only [OF review k1 k2 k3]
  obtain updated where
    stored: "storage_get (snd (review_put ''r1'' (Some (JObj ?d)) example_store))
               ''Review'' (JStr ''r1'') = Some updated"
    and new: "\<forall>key val. key \<notin> {''id'', ''created_at'', ''updated_at'', ''user_id'', ''place_id''} \<longrightarrow>
                map_of ?d key = Some val \<longrightarrow> map_of updated key = Some val"
    and kept: "\<forall>key \<in> {''id'', ''created_at'', ''updated_at'', ''user_id'', ''place_id''}.
                map_of updated key = map_of example_review key"
    by blast
  from new have "map_of updated ''text'' = Some (JStr ''updated'')"
    and "map_of updated ''stars'' = Some (JNum 5)"
    by simp_all
  moreover from kept have "map_of updated ''id'' = Some (JStr ''r1'')"
    and "map_of updated ''created_at'' = Some (JStr ''t0'')"
    and "map_of updated ''updated_at'' = Some (JStr ''t0'')"
    and "map_of updated ''user_id'' = Some (JStr ''u1'')"
    and "map_of updated ''place_id'' = Some (JStr ''p1'')"
    by (simp_all add: example_review_def)
  ultimately show ?thesis using review k1 k2 k3 stored concrete by blast
qed

subsection \<open>Deleting a review\<close>

text \<open>
  C5. A successful delete of a review id answers 200 with the empty JSON object, has
  issued \<open>delete\<close> and then \<open>save\<close>, leaves no review of that id among the live
  objects nor in the persisted copy, and a get of the same id in the resulting store
  answers 404.
\<close>

theorem delete_then_get_not_found:
  assumes "fst (review_delete_by_id review_id st) = Inr r"
  shows "r = \<lparr>status = 200, payload = JObj []\<rparr>
       \<and> storage_get (snd (review_delete_by_id review_id st)) ''Review'' (JStr review_id) = None
       \<and> persisted (snd (review_delete_by_id review_id st))
           = objects (snd (review_delete_by_id review_id st))
       \<and> issued (snd (review_delete_by_id review_id st))
           = issued st @ [Delete_call ''Review'' review_id, Save_call]
       \<and> review_by_id review_id (snd (review_delete_by_id review_id st))
           = (Inl (HTTPError 404 None), snd (review_delete_by_id review_id st))"
proof (cases "storage_get st ''Review'' (JStr review_id)")
  case None
  with assms show ?thesis by (simp add: review_delete_by_id_def abort_def)
next
  case (Some fetched_obj)
  then have run: "review_delete_by_id review_id st =
      (Inr \<lparr>status = 200, payload = JObj []\<rparr>, storage_save (storage_delete ''Review'' review_id st))"
    by (simp add: review_delete_by_id_def jsonify_def)
  have gone: "storage_get (storage_save (storage_delete ''Review'' review_id st)) ''Review''
                (JStr review_id) = None"
    by (simp add: storage_get_def storage_save_def storage_delete_def delete_conv')
  from assms run have "r = \<lparr>status = 200, payload = JObj []\<rparr>" by simp
  moreover have "review_by_id review_id (storage_save (storage_delete ''Review'' review_id st))
      = (Inl (HTTPError 404 None), storage_save (storage_delete ''Review'' review_id st))"
    by (simp add: review_by_id_def gone abort_def)
  ultimately show ?thesis
    using gone by (simp add: run) (simp add: storage_save_def storage_delete_def)
qed

theorem delete_then_get_not_found_witness:
  "fst (review_delete_by_id ''r1'' example_store) = Inr \<lparr>status = 200, payload = JObj []\<rparr>
   \<and> storage_get (snd (review_delete_by_id ''r1'' example_store)) ''Review'' (JStr ''r1'') = None
   \<and> fst (review_by_id ''r1'' (snd (review_delete_by_id ''r1'' example_store)))
       = Inl (HTTPError 404 None)"
proof -
  have deleted: "fst (review_delete_by_id ''r1'' example_store)
                   = Inr \<lparr>status = 200, payload = JObj []\<rparr>"
    by (simp add: review_delete_by_id_def storage_get_def example_store_def example_objects_def
          jsonify_def)
  from delete_then_get_not_found [OF deleted]
  show ?thesis using deleted by simp
qed

end
